theory Spec2Isabelle
  imports Complex_Main
begin

section \<open>The tax and lot accounting engine of financial\_api (utils.py, models.py)\<close>

text \<open>
  The engine is the class \<^verbatim>\<open>TaxCalculator\<close> of \<^verbatim>\<open>financial_api/utils.py\<close>, working on the
  \<^verbatim>\<open>Transaction\<close> rows of \<^verbatim>\<open>financial_api/models.py\<close>.

  Python's \<^verbatim>\<open>Decimal\<close> values are embedded as exact rationals: the engine only adds,
  subtracts, multiplies and compares them, and the rounding of the decimal context
  (28 significant digits) is left out of the model.

  The engine mutates its \<^verbatim>\<open>Transaction\<close> objects in place (\<^verbatim>\<open>quantity\<close> and
  \<^verbatim>\<open>is_day_trade\<close> in \<^verbatim>\<open>process_day_trades\<close>) and reads them again afterwards through the
  list of the day. The list of the day is therefore the store: an object is a position of
  that list, and \<^verbatim>\<open>process_day_trades\<close> returns the updated list.
\<close>

subsection \<open>Data model\<close>

type_synonym decimal = rat

text \<open>A calendar date: year, month, day.\<close>

type_synonym py_date = "nat \<times> nat \<times> nat"

text \<open>models.py, class \<^verbatim>\<open>Transaction\<close>: the fields the engine reads or writes.\<close>

record transaction =
  ticker :: string
  transaction_type :: string
  quantity :: decimal
  price_usd :: decimal
  exchange_rate :: decimal
  date :: py_date
  brokerage_fee :: decimal
  is_day_trade :: bool

text \<open>
  An open lot: the dict appended to \<^verbatim>\<open>holdings[ticker]\<close> by \<^verbatim>\<open>calculate_month_taxes\<close>, with
  keys \<^verbatim>\<open>quantity\<close>, \<^verbatim>\<open>price\<close>, \<^verbatim>\<open>exchange_rate\<close>, \<^verbatim>\<open>date\<close> and \<^verbatim>\<open>brokerage_fee\<close>.
\<close>

record holding =
  h_quantity :: decimal
  h_price :: decimal
  h_exchange_rate :: decimal
  h_date :: py_date
  h_brokerage_fee :: decimal

text \<open>
  \<^verbatim>\<open>holdings = defaultdict(list)\<close>: every ticker has a list of lots, empty until a lot is
  appended.
\<close>

type_synonym holdings = "string \<Rightarrow> holding list"

text \<open>The class constants of \<^verbatim>\<open>TaxCalculator\<close>.\<close>

definition TAX_RATE :: decimal where
  "TAX_RATE = 15 / 100"

definition MONTHLY_EXEMPTION :: decimal where
  "MONTHLY_EXEMPTION = 20000"

definition DAY_TRADE_TAX_RATE :: decimal where
  "DAY_TRADE_TAX_RATE = 20 / 100"

definition IRRF_RATE :: decimal where
  "IRRF_RATE = 5 / 100000"

definition SWING_TRADE_EXEMPTION :: decimal where
  "SWING_TRADE_EXEMPTION = 20000"

text \<open>models.py, the properties \<^verbatim>\<open>Transaction.total_value_usd\<close> and \<^verbatim>\<open>total_value_brl\<close>.\<close>

definition total_value_usd :: "transaction \<Rightarrow> decimal" where
  "total_value_usd t = (let base_value = quantity t * price_usd t in base_value + brokerage_fee t)"

definition total_value_brl :: "transaction \<Rightarrow> decimal" where
  "total_value_brl t = total_value_usd t * exchange_rate t"

subsection \<open>Grouping\<close>

text \<open>
  \<^verbatim>\<open>d = defaultdict(list); for x in xs: d[key(x)].append(x)\<close>, iterated with
  \<^verbatim>\<open>d.items()\<close>: the groups come in the order in which their keys first occur, and every
  group keeps the order of the list.
\<close>

fun append_to_group :: "'k \<Rightarrow> 'a \<Rightarrow> ('k \<times> 'a list) list \<Rightarrow> ('k \<times> 'a list) list" where
  "append_to_group k x [] = [(k, [x])]"
| "append_to_group k x ((k', xs) # rest) =
     (if k = k' then (k', xs @ [x]) # rest else (k', xs) # append_to_group k x rest)"

definition group_by :: "('a \<Rightarrow> 'k) \<Rightarrow> 'a list \<Rightarrow> ('k \<times> 'a list) list" where
  "group_by key xs = foldl (\<lambda>d x. append_to_group (key x) x d) [] xs"

subsection \<open>calculate\_fifo\_gain\_loss\<close>

text \<open>
  The gain or loss of one slice of \<^verbatim>\<open>quantity_used\<close> shares taken from \<^verbatim>\<open>holding\<close>
  (the last lines of the loop body).
\<close>

definition slice_gain_loss :: "transaction \<Rightarrow> holding \<Rightarrow> decimal \<Rightarrow> decimal" where
  "slice_gain_loss sell_transaction holding quantity_used =
     (let cost_basis_usd = quantity_used * h_price holding;
          cost_basis_brl = cost_basis_usd * h_exchange_rate holding;
          sale_value_usd = quantity_used * price_usd sell_transaction;
          sale_value_brl = sale_value_usd * exchange_rate sell_transaction
      in sale_value_brl - cost_basis_brl)"

text \<open>
  The \<^verbatim>\<open>while remaining_quantity > 0 and holdings\<close> loop. The list of lots is mutated in
  place by the source (\<^verbatim>\<open>pop(0)\<close>, \<^verbatim>\<open>holding['quantity'] -= quantity_used\<close>), so the loop
  returns it with the total.
\<close>

function fifo_loop :: "transaction \<Rightarrow> decimal \<Rightarrow> decimal \<Rightarrow> holding list \<Rightarrow> decimal \<times> holding list" where
  "fifo_loop sell_transaction remaining_quantity total_gain_loss hs =
     (if remaining_quantity > 0 \<and> hs \<noteq> [] then
        (let holding = hd hs in
         if h_quantity holding \<le> remaining_quantity then
           (let quantity_used = h_quantity holding in
            fifo_loop sell_transaction (remaining_quantity - quantity_used)
              (total_gain_loss + slice_gain_loss sell_transaction holding quantity_used) (tl hs))
         else
           (let quantity_used = remaining_quantity in
            fifo_loop sell_transaction 0
              (total_gain_loss + slice_gain_loss sell_transaction holding quantity_used)
              (holding\<lparr>h_quantity := h_quantity holding - quantity_used\<rparr> # tl hs)))
      else (total_gain_loss, hs))"
  by pat_completeness auto
termination
  by (relation "measure (\<lambda>(s, r, t, hs). 2 * length hs + (if r > 0 then 1 else 0))") auto

definition calculate_fifo_gain_loss :: "transaction \<Rightarrow> holding list \<Rightarrow> decimal \<times> holding list" where
  "calculate_fifo_gain_loss sell_transaction hs = fifo_loop sell_transaction (quantity sell_transaction) 0 hs"

subsection \<open>process\_day\_trades\<close>

text \<open>The dict \<^verbatim>\<open>result\<close> of \<^verbatim>\<open>process_day_trades\<close>.\<close>

record day_trade_result =
  dt_gains :: decimal
  dt_losses :: decimal

text \<open>
  The body of the nested loop \<^verbatim>\<open>for buy in buys: for sell in sells:\<close>, on the objects at
  positions \<open>b\<close> and \<open>s\<close> of the list of the day. Both objects are written back: the
  quantities decremented, the flags set.
\<close>

definition match_pair :: "nat \<Rightarrow> nat \<Rightarrow> transaction list \<times> day_trade_result \<Rightarrow> transaction list \<times> day_trade_result" where
  "match_pair b s st =
     (let txs = fst st; result = snd st; buy = txs ! b; sell = txs ! s in
      if quantity buy > 0 \<and> quantity sell > 0 then
        (let day_trade_qty = min (quantity buy) (quantity sell);
             buy_value = day_trade_qty * price_usd buy * exchange_rate buy;
             sell_value = day_trade_qty * price_usd sell * exchange_rate sell;
             gain_loss = sell_value - buy_value;
             txs1 = txs[b := buy\<lparr>quantity := quantity buy - day_trade_qty, is_day_trade := True\<rparr>];
             txs2 = txs1[s := (txs1 ! s)\<lparr>quantity := quantity (txs1 ! s) - day_trade_qty, is_day_trade := True\<rparr>]
         in if gain_loss > 0 then (txs2, result\<lparr>dt_gains := dt_gains result + gain_loss\<rparr>)
            else (txs2, result\<lparr>dt_losses := dt_losses result + \<bar>gain_loss\<bar>\<rparr>))
      else st)"

text \<open>The loops over one ticker's buys and sells.\<close>

definition match_ticker :: "nat list \<Rightarrow> nat list \<Rightarrow> transaction list \<times> day_trade_result \<Rightarrow> transaction list \<times> day_trade_result" where
  "match_ticker buys sells st = foldl (\<lambda>st1 b. foldl (\<lambda>st2 s. match_pair b s st2) st1 sells) st buys"

text \<open>
  The body of \<^verbatim>\<open>for ticker, ticker_txs in ticker_transactions.items()\<close>: the group of
  one ticker, a list of positions, is split into its buys and its sells. The transaction
  type is never written, so the split can read it from the list the function was called
  with.
\<close>

definition match_group ::
  "transaction list \<Rightarrow> transaction list \<times> day_trade_result \<Rightarrow> string \<times> nat list
   \<Rightarrow> transaction list \<times> day_trade_result" where
  "match_group transactions st item =
     (let ticker_txs = snd item;
          buys = filter (\<lambda>i. transaction_type (transactions ! i) = ''buy'') ticker_txs;
          sells = filter (\<lambda>i. transaction_type (transactions ! i) = ''sell'') ticker_txs
      in match_ticker buys sells st)"

text \<open>\<^verbatim>\<open>process_day_trades\<close>: the positions of the day are grouped by ticker.\<close>

definition process_day_trades :: "transaction list \<Rightarrow> transaction list \<times> day_trade_result" where
  "process_day_trades transactions =
     (let ticker_transactions = group_by (\<lambda>i. ticker (transactions ! i)) [0..<length transactions] in
      foldl (match_group transactions) (transactions, \<lparr>dt_gains = 0, dt_losses = 0\<rparr>)
        ticker_transactions)"

subsection \<open>calculate\_month\_taxes\<close>

text \<open>
  The local variables of \<^verbatim>\<open>calculate_month_taxes\<close> that its loops update, with the
  \<^verbatim>\<open>holdings\<close> dict it shares with its caller.
\<close>

record month_state =
  month_gains :: decimal
  month_losses :: decimal
  month_sales_total :: decimal
  day_trade_gains :: decimal
  day_trade_losses :: decimal
  irrf_paid :: decimal
  compensable_losses :: decimal
  compensable_losses_used :: decimal
  day_trade_losses_used :: decimal
  holdings :: holdings

text \<open>The dict returned by \<^verbatim>\<open>calculate_month_taxes\<close>.\<close>

record month_result =
  mr_month :: "nat \<times> nat"
  mr_gains :: decimal
  mr_losses :: decimal
  mr_net_gains :: decimal
  mr_sales_total :: decimal
  mr_taxable_gains :: decimal
  mr_day_trade_gains :: decimal
  mr_day_trade_losses :: decimal
  mr_irrf_paid :: decimal
  mr_exempt :: bool
  mr_exempted_gains :: decimal
  mr_exempted_sales :: decimal
  mr_remaining_compensable_losses :: decimal
  mr_remaining_day_trade_losses :: decimal
  mr_compensable_losses_used :: decimal
  mr_day_trade_losses_used :: decimal

text \<open>The body of \<^verbatim>\<open>for transaction in day_transactions\<close>.\<close>

definition process_transaction :: "transaction \<Rightarrow> month_state \<Rightarrow> month_state" where
  "process_transaction transaction st =
     (if transaction_type transaction = ''sell'' then
        (let irrf = total_value_brl transaction * IRRF_RATE;
             st1 = st\<lparr>irrf_paid := irrf_paid st + irrf,
                      month_sales_total := month_sales_total st + total_value_brl transaction\<rparr>
         in if \<not> is_day_trade transaction then
              (let fifo = calculate_fifo_gain_loss transaction (holdings st1 (ticker transaction));
                   gain_loss = fst fifo;
                   st2 = st1\<lparr>holdings := (holdings st1)(ticker transaction := snd fifo)\<rparr>
               in if gain_loss > 0 then
                    (if compensable_losses st2 > 0 then
                       (let losses_to_use = min gain_loss (compensable_losses st2) in
                        st2\<lparr>compensable_losses := compensable_losses st2 - losses_to_use,
                            compensable_losses_used := compensable_losses_used st2 + losses_to_use,
                            month_gains := month_gains st2 + (gain_loss - losses_to_use)\<rparr>)
                     else st2\<lparr>month_gains := month_gains st2 + gain_loss\<rparr>)
                  else st2\<lparr>month_losses := month_losses st2 + \<bar>gain_loss\<bar>\<rparr>)
            else st1)
      else if transaction_type transaction = ''buy'' \<and> \<not> is_day_trade transaction then
        st\<lparr>holdings := (holdings st)(ticker transaction :=
              holdings st (ticker transaction) @
                [\<lparr>h_quantity = quantity transaction, h_price = price_usd transaction,
                  h_exchange_rate = exchange_rate transaction, h_date = date transaction,
                  h_brokerage_fee = brokerage_fee transaction\<rparr>])\<rparr>
      else st)"

text \<open>The body of \<^verbatim>\<open>for date, day_transactions in daily_transactions.items()\<close>.\<close>

definition process_day :: "transaction list \<Rightarrow> month_state \<Rightarrow> month_state" where
  "process_day day_transactions st =
     (let processed = process_day_trades day_transactions;
          day_transactions' = fst processed;
          day_trade_results = snd processed;
          applies = (dt_gains day_trade_results > 0 \<and> day_trade_losses st > 0);
          losses_to_use = min (dt_gains day_trade_results) (day_trade_losses st);
          st1 = (if applies then
                   st\<lparr>day_trade_losses := day_trade_losses st - losses_to_use,
                      day_trade_losses_used := day_trade_losses_used st + losses_to_use\<rparr>
                 else st);
          results_gains = (if applies then dt_gains day_trade_results - losses_to_use
                           else dt_gains day_trade_results);
          st2 = st1\<lparr>day_trade_gains := day_trade_gains st1 + results_gains,
                    day_trade_losses := day_trade_losses st1 + dt_losses day_trade_results\<rparr>
      in foldl (\<lambda>s transaction. process_transaction transaction s) st2 day_transactions')"

text \<open>
  The state before the first day. The parameter \<^verbatim>\<open>day_trade_losses\<close> is assigned
  \<^verbatim>\<open>Decimal('0.00')\<close> by the fifth statement of the function, before anything reads it:
  the local variable starts at zero whatever the caller passed.
\<close>

definition month_start :: "holdings \<Rightarrow> decimal \<Rightarrow> decimal \<Rightarrow> month_state" where
  "month_start hs compensable_losses_arg day_trade_losses_arg =
     \<lparr>month_gains = 0, month_losses = 0, month_sales_total = 0, day_trade_gains = 0,
      day_trade_losses = 0, irrf_paid = 0, compensable_losses = compensable_losses_arg,
      compensable_losses_used = 0, day_trade_losses_used = 0, holdings = hs\<rparr>"

text \<open>The loop over the days of the month, grouped by date.\<close>

definition month_loop :: "transaction list \<Rightarrow> month_state \<Rightarrow> month_state" where
  "month_loop transactions st =
     foldl (\<lambda>s (d, day_transactions). process_day day_transactions s) st (group_by date transactions)"

text \<open>The exemption and the returned dict.\<close>

definition month_finish :: "nat \<times> nat \<Rightarrow> month_state \<Rightarrow> month_result" where
  "month_finish month st =
     (let net_gains = month_gains st - month_losses st;
          exempted = (net_gains > 0 \<and> month_sales_total st \<le> SWING_TRADE_EXEMPTION);
          exempted_gains = (if exempted then net_gains else 0);
          exempted_sales = (if exempted then month_sales_total st else 0);
          taxable_gains = (if exempted then 0 else if net_gains > 0 then net_gains else 0)
      in \<lparr>mr_month = month, mr_gains = month_gains st, mr_losses = month_losses st,
          mr_net_gains = net_gains, mr_sales_total = month_sales_total st,
          mr_taxable_gains = taxable_gains, mr_day_trade_gains = day_trade_gains st,
          mr_day_trade_losses = day_trade_losses st, mr_irrf_paid = irrf_paid st,
          mr_exempt = (month_sales_total st \<le> MONTHLY_EXEMPTION),
          mr_exempted_gains = exempted_gains, mr_exempted_sales = exempted_sales,
          mr_remaining_compensable_losses = compensable_losses st,
          mr_remaining_day_trade_losses = day_trade_losses st,
          mr_compensable_losses_used = compensable_losses_used st,
          mr_day_trade_losses_used = day_trade_losses_used st\<rparr>)"

text \<open>
  \<^verbatim>\<open>calculate_month_taxes(transactions, holdings, month, compensable_losses,
  day_trade_losses)\<close>: the result dict, and the \<^verbatim>\<open>holdings\<close> dict as the call leaves it.
\<close>

definition calculate_month_taxes ::
  "transaction list \<Rightarrow> holdings \<Rightarrow> nat \<times> nat \<Rightarrow> decimal \<Rightarrow> decimal \<Rightarrow> month_result \<times> holdings" where
  "calculate_month_taxes transactions hs month compensable_losses_arg day_trade_losses_arg =
     (let st = month_loop transactions (month_start hs compensable_losses_arg day_trade_losses_arg)
      in (month_finish month st, holdings st))"

subsection \<open>calculate\_taxes\<close>

text \<open>
  The dict \<^verbatim>\<open>yearly_summary\<close>. Its entry \<^verbatim>\<open>recommendations\<close> is a list of texts that
  \<^verbatim>\<open>generate_recommendations\<close> derives from the other entries without changing them; it
  is left out.
\<close>

record yearly_summary =
  ys_year :: int
  ys_total_gains :: decimal
  ys_total_losses :: decimal
  ys_net_gains :: decimal
  ys_tax_owed :: decimal
  ys_irrf_paid :: decimal
  ys_day_trade_gains :: decimal
  ys_day_trade_losses :: decimal
  ys_day_trade_tax :: decimal
  ys_monthly_breakdown :: "month_result list"
  ys_compensable_losses :: decimal
  ys_day_trade_compensable_losses :: decimal
  ys_previous_year_losses_used :: decimal
  ys_previous_year_day_trade_losses_used :: decimal
  ys_total_exempted_gains :: decimal
  ys_total_exempted_sales :: decimal

text \<open>
  The attributes of a \<^verbatim>\<open>TaxCalculator\<close> that \<^verbatim>\<open>calculate_taxes\<close> reads:
  \<^verbatim>\<open>self.transactions\<close> is the user's ledger of the year in the order of the query
  (\<^verbatim>\<open>order_by('date', 'created_at')\<close>).
\<close>

record calculator =
  self_year :: int
  self_transactions :: "transaction list"
  self_compensable_losses :: decimal
  self_day_trade_compensable_losses :: decimal

text \<open>\<^verbatim>\<open>group_transactions_by_month\<close>: the key \<^verbatim>\<open>f"{year}-{month:02d}"\<close> as a pair.\<close>

definition month_key :: "transaction \<Rightarrow> nat \<times> nat" where
  "month_key t = (fst (date t), fst (snd (date t)))"

definition group_transactions_by_month :: "calculator \<Rightarrow> ((nat \<times> nat) \<times> transaction list) list" where
  "group_transactions_by_month self = group_by month_key (self_transactions self)"

text \<open>
  What the loop over the months carries: the summary, the \<^verbatim>\<open>holdings\<close> dict and the two
  carryforward balances.
\<close>

record year_state =
  summary :: yearly_summary
  year_holdings :: holdings
  remaining_compensable_losses :: decimal
  remaining_day_trade_losses :: decimal

definition year_start :: "calculator \<Rightarrow> year_state" where
  "year_start self =
     \<lparr>summary =
        \<lparr>ys_year = self_year self, ys_total_gains = 0, ys_total_losses = 0, ys_net_gains = 0,
         ys_tax_owed = 0, ys_irrf_paid = 0, ys_day_trade_gains = 0, ys_day_trade_losses = 0,
         ys_day_trade_tax = 0, ys_monthly_breakdown = [], ys_compensable_losses = 0,
         ys_day_trade_compensable_losses = 0, ys_previous_year_losses_used = 0,
         ys_previous_year_day_trade_losses_used = 0, ys_total_exempted_gains = 0,
         ys_total_exempted_sales = 0\<rparr>,
      year_holdings = (\<lambda>tk. []),
      remaining_compensable_losses = self_compensable_losses self,
      remaining_day_trade_losses = self_day_trade_compensable_losses self\<rparr>"

text \<open>The body of \<^verbatim>\<open>for month, transactions in monthly_data.items()\<close>.\<close>

definition year_step :: "year_state \<Rightarrow> (nat \<times> nat) \<times> transaction list \<Rightarrow> year_state" where
  "year_step ys mt =
     (let called = calculate_month_taxes (snd mt) (year_holdings ys) (fst mt)
                     (remaining_compensable_losses ys) (remaining_day_trade_losses ys);
          month_result = fst called;
          y = summary ys
      in \<lparr>summary =
            y\<lparr>ys_monthly_breakdown := ys_monthly_breakdown y @ [month_result],
              ys_total_gains := ys_total_gains y + mr_gains month_result,
              ys_total_losses := ys_total_losses y + mr_losses month_result,
              ys_day_trade_gains := ys_day_trade_gains y + mr_day_trade_gains month_result,
              ys_day_trade_losses := ys_day_trade_losses y + mr_day_trade_losses month_result,
              ys_irrf_paid := ys_irrf_paid y + mr_irrf_paid month_result,
              ys_total_exempted_gains := ys_total_exempted_gains y + mr_exempted_gains month_result,
              ys_total_exempted_sales := ys_total_exempted_sales y + mr_exempted_sales month_result,
              ys_previous_year_losses_used :=
                ys_previous_year_losses_used y + mr_compensable_losses_used month_result,
              ys_previous_year_day_trade_losses_used :=
                ys_previous_year_day_trade_losses_used y + mr_day_trade_losses_used month_result\<rparr>,
          year_holdings = snd called,
          remaining_compensable_losses = mr_remaining_compensable_losses month_result,
          remaining_day_trade_losses = mr_remaining_day_trade_losses month_result\<rparr>)"

text \<open>The statements after the loop: the two taxes, the tax owed, next year's balances.\<close>

definition year_finish :: "yearly_summary \<Rightarrow> yearly_summary" where
  "year_finish y =
     (let normal_net_gains = ys_total_gains y - ys_total_losses y;
          day_trade_net_gains = ys_day_trade_gains y - ys_day_trade_losses y;
          y1 = (if normal_net_gains > 0
                then y\<lparr>ys_tax_owed := ys_tax_owed y + normal_net_gains * TAX_RATE\<rparr> else y);
          y2 = (if day_trade_net_gains > 0
                then y1\<lparr>ys_day_trade_tax := day_trade_net_gains * DAY_TRADE_TAX_RATE\<rparr> else y1);
          total_tax = ys_tax_owed y2 + ys_day_trade_tax y2;
          y3 = y2\<lparr>ys_tax_owed := max (total_tax - ys_irrf_paid y2) 0\<rparr>;
          y4 = (if normal_net_gains < 0
                then y3\<lparr>ys_compensable_losses := \<bar>normal_net_gains\<bar>\<rparr> else y3)
      in if day_trade_net_gains < 0
         then y4\<lparr>ys_day_trade_compensable_losses := \<bar>day_trade_net_gains\<bar>\<rparr> else y4)"

definition year_loop :: "calculator \<Rightarrow> year_state" where
  "year_loop self = foldl year_step (year_start self) (group_transactions_by_month self)"

definition calculate_taxes :: "calculator \<Rightarrow> yearly_summary" where
  "calculate_taxes self = year_finish (summary (year_loop self))"

subsection \<open>The constructor\<close>


subsection \<open>Rows of the ledger\<close>

text \<open>
  A \<^verbatim>\<open>Transaction\<close> row as the database returns it when nothing ever saved the flag:
  \<^verbatim>\<open>is_day_trade = models.BooleanField(default=False)\<close>.
\<close>

definition new_transaction ::
  "string \<Rightarrow> string \<Rightarrow> decimal \<Rightarrow> decimal \<Rightarrow> decimal \<Rightarrow> py_date \<Rightarrow> decimal \<Rightarrow> transaction" where
  "new_transaction tk ty q p r d fee =
     \<lparr>ticker = tk, transaction_type = ty, quantity = q, price_usd = p, exchange_rate = r,
      date = d, brokerage_fee = fee, is_day_trade = False\<rparr>"

section \<open>Properties\<close>

subsection \<open>The FIFO loop\<close>

declare fifo_loop.simps [simp del]

lemma fifo_loop_stop:
  "remaining_quantity \<le> 0 \<or> hs = [] \<Longrightarrow> fifo_loop s remaining_quantity t hs = (t, hs)"
  by (subst fifo_loop.simps) auto

lemma fifo_loop_whole:
  "0 < r \<Longrightarrow> h_quantity h \<le> r \<Longrightarrow>
   fifo_loop s r t (h # hs) =
     fifo_loop s (r - h_quantity h) (t + slice_gain_loss s h (h_quantity h)) hs"
  by (subst fifo_loop.simps) (simp add: Let_def)

lemma fifo_loop_split:
  "0 < r \<Longrightarrow> r < h_quantity h \<Longrightarrow>
   fifo_loop s r t (h # hs) =
     (t + slice_gain_loss s h r, h\<lparr>h_quantity := h_quantity h - r\<rparr> # hs)"
  by (subst fifo_loop.simps) (simp add: Let_def fifo_loop_stop)

lemma fifo_loop_oversold:
  "\<forall>h \<in> set hs. 0 \<le> h_quantity h \<Longrightarrow> sum_list (map h_quantity hs) < r \<Longrightarrow>
   fifo_loop s r t hs = (t + sum_list (map (\<lambda>h. slice_gain_loss s h (h_quantity h)) hs), [])"
proof (induction hs arbitrary: r t)
  case Nil
  then show ?case by (simp add: fifo_loop_stop)
next
  case (Cons h hs)
  have nn: "0 \<le> sum_list (map h_quantity hs)"
    using Cons.prems(1) by (auto intro!: sum_list_nonneg)
  have pos: "0 < r" and le: "h_quantity h \<le> r"
    using Cons.prems nn by auto
  have rest: "sum_list (map h_quantity hs) < r - h_quantity h"
    using Cons.prems(2) by simp
  show ?case
    using Cons.IH [OF _ rest] Cons.prems(1)
    by (simp add: fifo_loop_whole [OF pos le] add.assoc)
qed

lemma fifo_loop_prefix:
  "\<forall>h \<in> set hs. 0 < h_quantity h \<Longrightarrow> k < length hs \<Longrightarrow>
   sum_list (map h_quantity (take k hs)) \<le> r \<Longrightarrow>
   r < sum_list (map h_quantity (take (Suc k) hs)) \<Longrightarrow>
   fifo_loop s r t hs =
     (let whole = take k hs; used = r - sum_list (map h_quantity whole);
          gain = t + sum_list (map (\<lambda>h. slice_gain_loss s h (h_quantity h)) whole)
      in if used = 0 then (gain, drop k hs)
         else (gain + slice_gain_loss s (hs ! k) used,
               (hs ! k)\<lparr>h_quantity := h_quantity (hs ! k) - used\<rparr> # drop (Suc k) hs))"
proof (induction hs arbitrary: k r t)
  case Nil
  then show ?case by simp
next
  case (Cons h hs)
  show ?case
  proof (cases k)
    case 0
    with Cons.prems have r: "0 \<le> r" "r < h_quantity h" by simp_all
    show ?thesis
    proof (cases "r = 0")
      case True
      then show ?thesis using 0 by (simp add: fifo_loop_stop)
    next
      case False
      with r have "0 < r" by simp
      then show ?thesis using 0 r False by (simp add: fifo_loop_split Let_def)
    qed
  next
    case (Suc k')
    have hpos: "0 < h_quantity h" using Cons.prems(1) by simp
    have nn: "0 \<le> sum_list (map h_quantity (take k' hs))"
      using Cons.prems(1) by (force intro!: sum_list_nonneg dest!: in_set_takeD simp: less_imp_le)
    have le: "h_quantity h \<le> r" and pos: "0 < r"
      using Cons.prems(3) Suc nn hpos by auto
    have a: "\<forall>h \<in> set hs. 0 < h_quantity h" using Cons.prems(1) by simp
    have b: "k' < length hs" using Cons.prems(2) Suc by simp
    have c: "sum_list (map h_quantity (take k' hs)) \<le> r - h_quantity h"
      using Cons.prems(3) Suc by simp
    have d: "r - h_quantity h < sum_list (map h_quantity (take (Suc k') hs))"
      using Cons.prems(4) Suc by simp
    show ?thesis
      using Cons.IH [OF a b c d, of "t + slice_gain_loss s h (h_quantity h)"] Suc
      by (simp add: fifo_loop_whole [OF pos le] Let_def algebra_simps)
  qed
qed

text \<open>
  Claim C1 says that a sell of more shares than the ticker's lots hold raises a
  DataIntegrityError and aborts the computation. The source has no such error: the loop
  of \<^verbatim>\<open>calculate_fifo_gain_loss\<close> is guarded by \<^verbatim>\<open>and holdings\<close> and simply ends when the
  lots run out, and nothing in \<^verbatim>\<open>calculate_month_taxes\<close> or \<^verbatim>\<open>calculate_taxes\<close> compares the
  quantities. Counterexample: a sell of 50 shares with no prior buy returns the gain/loss
  0 and the month and the year are computed to the end; a sell of 50 shares against one
  lot of 30 returns the gain on the 30 shares only.
\<close>

theorem oversold_sell_counterexample:
  "calculate_fifo_gain_loss (new_transaction ''VALE'' ''sell'' 50 15 5 (2024, 3, 9) 0) [] = (0, [])
   \<and> calculate_fifo_gain_loss (new_transaction ''VALE'' ''sell'' 50 15 5 (2024, 3, 9) 0)
        [\<lparr>h_quantity = 30, h_price = 10, h_exchange_rate = 4, h_date = (2024, 1, 5),
          h_brokerage_fee = 0\<rparr>] = (1050, [])
   \<and> mr_gains (fst (calculate_month_taxes
        [new_transaction ''VALE'' ''sell'' 50 15 5 (2024, 3, 9) 0] (\<lambda>tk. []) (2024, 3) 0 0)) = 0
   \<and> mr_losses (fst (calculate_month_taxes
        [new_transaction ''VALE'' ''sell'' 50 15 5 (2024, 3, 9) 0] (\<lambda>tk. []) (2024, 3) 0 0)) = 0
   \<and> ys_total_gains (calculate_taxes
        \<lparr>self_year = 2024,
         self_transactions = [new_transaction ''VALE'' ''sell'' 50 15 5 (2024, 3, 9) 0],
         self_compensable_losses = 0, self_day_trade_compensable_losses = 0\<rparr>) = 0"
  by code_simp

text \<open>
  Claim C1 as amended: when a sell asks for more shares than the lots of its ticker hold
  (lots of non-negative quantity, none at all included), \<^verbatim>\<open>calculate_fifo_gain_loss\<close>
  raises nothing: it consumes every lot, returns the gain or loss of the shares that
  were there (0 when there was no lot) and leaves the ticker's list of lots empty.
\<close>

theorem oversold_sell_partial_result:
  "\<forall>h \<in> set hs. 0 \<le> h_quantity h \<Longrightarrow>
   sum_list (map h_quantity hs) < quantity sell_transaction \<Longrightarrow>
   calculate_fifo_gain_loss sell_transaction hs =
     (sum_list (map (\<lambda>h. h_quantity h * price_usd sell_transaction * exchange_rate sell_transaction
                          - h_quantity h * h_price h * h_exchange_rate h) hs), [])"
  unfolding calculate_fifo_gain_loss_def
  using fifo_loop_oversold [of hs "quantity sell_transaction" sell_transaction 0]
  by (simp add: slice_gain_loss_def)

theorem oversold_sell_partial_result_witness:
  "0 \<le> h_quantity \<lparr>h_quantity = 30, h_price = 10, h_exchange_rate = 4, h_date = (2024, 1, 5),
                     h_brokerage_fee = 0\<rparr>
   \<and> sum_list (map h_quantity [\<lparr>h_quantity = 30, h_price = 10, h_exchange_rate = 4,
                                  h_date = (2024, 1, 5), h_brokerage_fee = 0\<rparr>])
       < quantity (new_transaction ''VALE'' ''sell'' 50 15 5 (2024, 3, 9) 0)
   \<and> calculate_fifo_gain_loss (new_transaction ''VALE'' ''sell'' 50 15 5 (2024, 3, 9) 0)
        [\<lparr>h_quantity = 30, h_price = 10, h_exchange_rate = 4, h_date = (2024, 1, 5),
          h_brokerage_fee = 0\<rparr>] = (1050, [])"
  using oversold_sell_partial_result
    [of "[\<lparr>h_quantity = 30, h_price = 10, h_exchange_rate = 4, h_date = (2024, 1, 5),
           h_brokerage_fee = 0\<rparr>]"
        "new_transaction ''VALE'' ''sell'' 50 15 5 (2024, 3, 9) 0"]
  by (simp add: new_transaction_def)

text \<open>
  Claim C7: the FIFO calculation drains the lots oldest first. With lots of positive
  quantity and a sell whose quantity falls within lot \<open>k\<close> (the first \<open>k\<close> lots hold at
  most the quantity sold, the first \<open>k + 1\<close> hold more), the first \<open>k\<close> lots are consumed
  whole and removed, lot \<open>k\<close> is split and keeps what was not needed (or is left
  untouched when the first \<open>k\<close> lots hold exactly the quantity sold), the later lots are
  unchanged, and every slice is valued at the sell's price and exchange rate on the sale
  side and at the lot's price and exchange rate on the cost side.
\<close>

theorem fifo_drains_oldest_first:
  "\<forall>h \<in> set hs. 0 < h_quantity h \<Longrightarrow> k < length hs \<Longrightarrow>
   sum_list (map h_quantity (take k hs)) \<le> quantity s \<Longrightarrow>
   quantity s < sum_list (map h_quantity (take (Suc k) hs)) \<Longrightarrow>
   calculate_fifo_gain_loss s hs =
     (let whole = take k hs; used = quantity s - sum_list (map h_quantity whole);
          gain = sum_list (map (\<lambda>h. h_quantity h * price_usd s * exchange_rate s
                                      - h_quantity h * h_price h * h_exchange_rate h) whole)
      in if used = 0 then (gain, drop k hs)
         else (gain + (used * price_usd s * exchange_rate s
                       - used * h_price (hs ! k) * h_exchange_rate (hs ! k)),
               (hs ! k)\<lparr>h_quantity := h_quantity (hs ! k) - used\<rparr> # drop (Suc k) hs))"
  unfolding calculate_fifo_gain_loss_def
  using fifo_loop_prefix [of hs k "quantity s" s 0]
  by (simp add: slice_gain_loss_def Let_def)

text \<open>
  The example of the claim: buys of 100 at \$10 and 50 at \$12, then a sell of 120. The cost
  is that of the whole first lot and of 20 shares of the second, each at its own exchange
  rate (here 4 and 6, the sell at \$15 and 5), and 30 shares at \$12 stay.
\<close>

theorem fifo_drains_oldest_first_witness:
  "0 < h_quantity \<lparr>h_quantity = 100, h_price = 10, h_exchange_rate = 4, h_date = (2024, 1, 1),
                    h_brokerage_fee = 0\<rparr>
   \<and> 0 < h_quantity \<lparr>h_quantity = 50, h_price = 12, h_exchange_rate = 6, h_date = (2024, 1, 5),
                      h_brokerage_fee = 0\<rparr>
   \<and> sum_list (map h_quantity (take 1
        [\<lparr>h_quantity = 100, h_price = 10, h_exchange_rate = 4, h_date = (2024, 1, 1),
          h_brokerage_fee = 0\<rparr>,
         \<lparr>h_quantity = 50, h_price = 12, h_exchange_rate = 6, h_date = (2024, 1, 5),
          h_brokerage_fee = 0\<rparr>]))
       \<le> quantity (new_transaction ''VALE'' ''sell'' 120 15 5 (2024, 3, 9) 0)
   \<and> quantity (new_transaction ''VALE'' ''sell'' 120 15 5 (2024, 3, 9) 0)
       < sum_list (map h_quantity (take 2
        [\<lparr>h_quantity = 100, h_price = 10, h_exchange_rate = 4, h_date = (2024, 1, 1),
          h_brokerage_fee = 0\<rparr>,
         \<lparr>h_quantity = 50, h_price = 12, h_exchange_rate = 6, h_date = (2024, 1, 5),
          h_brokerage_fee = 0\<rparr>]))
   \<and> calculate_fifo_gain_loss (new_transaction ''VALE'' ''sell'' 120 15 5 (2024, 3, 9) 0)
        [\<lparr>h_quantity = 100, h_price = 10, h_exchange_rate = 4, h_date = (2024, 1, 1),
          h_brokerage_fee = 0\<rparr>,
         \<lparr>h_quantity = 50, h_price = 12, h_exchange_rate = 6, h_date = (2024, 1, 5),
          h_brokerage_fee = 0\<rparr>]
       = (120 * 15 * 5 - (100 * 10 * 4 + 20 * 12 * 6),
          [\<lparr>h_quantity = 30, h_price = 12, h_exchange_rate = 6, h_date = (2024, 1, 5),
            h_brokerage_fee = 0\<rparr>])"
  using fifo_drains_oldest_first
    [of "[\<lparr>h_quantity = 100, h_price = 10, h_exchange_rate = 4, h_date = (2024, 1, 1),
           h_brokerage_fee = 0\<rparr>,
          \<lparr>h_quantity = 50, h_price = 12, h_exchange_rate = 6, h_date = (2024, 1, 5),
           h_brokerage_fee = 0\<rparr>]" 1
        "new_transaction ''VALE'' ''sell'' 120 15 5 (2024, 3, 9) 0"]
  by (simp add: new_transaction_def Let_def)

subsection \<open>The yearly summary\<close>

lemma year_step_tax_fields:
  "ys_tax_owed (summary (year_step ys mt)) = ys_tax_owed (summary ys) \<and>
   ys_day_trade_tax (summary (year_step ys mt)) = ys_day_trade_tax (summary ys)"
  by (simp add: year_step_def Let_def)

lemma year_fold_tax_fields:
  "ys_tax_owed (summary (foldl year_step ys months)) = ys_tax_owed (summary ys) \<and>
   ys_day_trade_tax (summary (foldl year_step ys months)) = ys_day_trade_tax (summary ys)"
  by (induction months arbitrary: ys) (simp_all add: year_step_tax_fields)

lemma year_loop_tax_fields:
  "ys_tax_owed (summary (year_loop self)) = 0 \<and> ys_day_trade_tax (summary (year_loop self)) = 0"
  unfolding year_loop_def using year_fold_tax_fields [of "year_start self"]
  by (simp add: year_start_def)

lemma year_finish_totals:
  "ys_total_gains (year_finish y) = ys_total_gains y \<and>
   ys_total_losses (year_finish y) = ys_total_losses y \<and>
   ys_day_trade_gains (year_finish y) = ys_day_trade_gains y \<and>
   ys_day_trade_losses (year_finish y) = ys_day_trade_losses y \<and>
   ys_irrf_paid (year_finish y) = ys_irrf_paid y"
  by (simp add: year_finish_def Let_def)

lemma rate_times_positive_part:
  "(if 0 < n then n * r else 0) = r * max n (0::rat)"
  by (simp add: max_def)

lemma year_finish_tax_owed:
  assumes "ys_tax_owed y = 0" and "ys_day_trade_tax y = 0"
  shows "ys_tax_owed (year_finish y) =
     max (15 / 100 * max (ys_total_gains y - ys_total_losses y) 0
          + 20 / 100 * max (ys_day_trade_gains y - ys_day_trade_losses y) 0
          - ys_irrf_paid y) 0"
proof -
  define n where "n = ys_total_gains y - ys_total_losses y"
  define d where "d = ys_day_trade_gains y - ys_day_trade_losses y"
  have "ys_tax_owed (year_finish y) =
      max ((if 0 < n then n * TAX_RATE else 0) + (if 0 < d then d * DAY_TRADE_TAX_RATE else 0)
           - ys_irrf_paid y) 0"
    using assms unfolding year_finish_def Let_def n_def [symmetric] d_def [symmetric]
    by (cases "0 < n"; cases "0 < d"; cases "n < 0"; cases "d < 0"; simp)
  then show ?thesis
    unfolding rate_times_positive_part n_def d_def TAX_RATE_def DAY_TRADE_TAX_RATE_def .
qed

text \<open>The totals of the summary are the sums of the monthly results.\<close>

lemma year_step_totals:
  "ys_total_gains (summary (year_step ys mt))
     - sum_list (map mr_gains (ys_monthly_breakdown (summary (year_step ys mt))))
   = ys_total_gains (summary ys) - sum_list (map mr_gains (ys_monthly_breakdown (summary ys)))
   \<and> ys_total_losses (summary (year_step ys mt))
     - sum_list (map mr_losses (ys_monthly_breakdown (summary (year_step ys mt))))
   = ys_total_losses (summary ys) - sum_list (map mr_losses (ys_monthly_breakdown (summary ys)))
   \<and> ys_irrf_paid (summary (year_step ys mt))
     - sum_list (map mr_irrf_paid (ys_monthly_breakdown (summary (year_step ys mt))))
   = ys_irrf_paid (summary ys) - sum_list (map mr_irrf_paid (ys_monthly_breakdown (summary ys)))"
  by (simp add: year_step_def Let_def)

lemma year_fold_totals:
  "ys_total_gains (summary (foldl year_step ys months))
     - sum_list (map mr_gains (ys_monthly_breakdown (summary (foldl year_step ys months))))
   = ys_total_gains (summary ys) - sum_list (map mr_gains (ys_monthly_breakdown (summary ys)))
   \<and> ys_total_losses (summary (foldl year_step ys months))
     - sum_list (map mr_losses (ys_monthly_breakdown (summary (foldl year_step ys months))))
   = ys_total_losses (summary ys) - sum_list (map mr_losses (ys_monthly_breakdown (summary ys)))
   \<and> ys_irrf_paid (summary (foldl year_step ys months))
     - sum_list (map mr_irrf_paid (ys_monthly_breakdown (summary (foldl year_step ys months))))
   = ys_irrf_paid (summary ys) - sum_list (map mr_irrf_paid (ys_monthly_breakdown (summary ys)))"
proof (induction months arbitrary: ys)
  case Nil
  show ?case by simp
next
  case (Cons mt months)
  show ?case
    using Cons.IH [of "year_step ys mt"] year_step_totals [of ys mt] by simp
qed

text \<open>
  Claim C6: for every ledger and every pair of balances carried in from the year before,
  the tax owed of the yearly summary is
  \<open>max (15% \<times> max (total gains - total losses, 0) + 20% \<times> max (day-trade gains - day-trade
  losses, 0) - IRRF paid, 0)\<close> over the totals of the same summary, and it is never
  negative.
\<close>

theorem tax_owed_formula:
  "ys_tax_owed (calculate_taxes self) =
     max (15 / 100 * max (ys_total_gains (calculate_taxes self) - ys_total_losses (calculate_taxes self)) 0
          + 20 / 100 * max (ys_day_trade_gains (calculate_taxes self) - ys_day_trade_losses (calculate_taxes self)) 0
          - ys_irrf_paid (calculate_taxes self)) 0
   \<and> 0 \<le> ys_tax_owed (calculate_taxes self)"
proof -
  let ?y = "summary (year_loop self)"
  have z: "ys_tax_owed ?y = 0" "ys_day_trade_tax ?y = 0"
    using year_loop_tax_fields by simp_all
  have "ys_tax_owed (year_finish ?y) =
     max (15 / 100 * max (ys_total_gains ?y - ys_total_losses ?y) 0
          + 20 / 100 * max (ys_day_trade_gains ?y - ys_day_trade_losses ?y) 0
          - ys_irrf_paid ?y) 0"
    by (rule year_finish_tax_owed [OF z])
  then show ?thesis
    unfolding calculate_taxes_def by (simp add: year_finish_totals)
qed

subsection \<open>The constructor\<close>


subsection \<open>The month: exemption, carryforward, day-trade remainders, sale values\<close>

text \<open>
  Claim C2 says that the net gain of a month with sales up to R\$20,000 is exempt and adds
  nothing to the tax owed for the year. \<^verbatim>\<open>calculate_month_taxes\<close> does compute
  \<^verbatim>\<open>taxable_gains = 0\<close> and \<^verbatim>\<open>exempted_gains = net_gains\<close> for such a month, but
  \<^verbatim>\<open>calculate_taxes\<close> never reads them: it adds the month's \<^verbatim>\<open>gains\<close> and \<^verbatim>\<open>losses\<close> to the
  totals it taxes. The code at a year with one month, a buy of 100 at \$10 and a sell of
  100 at \$11 (exchange rate 1, sales of R\$1,100): the month is exempt, and the year owes
  15% of the gain of 100 less the IRRF.
\<close>

theorem exempt_month_is_taxed:
  "map mr_taxable_gains (ys_monthly_breakdown (calculate_taxes
      \<lparr>self_year = 2024,
       self_transactions =
         [new_transaction ''VALE'' ''buy'' 100 10 1 (2024, 1, 2) 0,
          new_transaction ''VALE'' ''sell'' 100 11 1 (2024, 1, 9) 0],
       self_compensable_losses = 0, self_day_trade_compensable_losses = 0\<rparr>)) = [0]
   \<and> map mr_exempted_gains (ys_monthly_breakdown (calculate_taxes
      \<lparr>self_year = 2024,
       self_transactions =
         [new_transaction ''VALE'' ''buy'' 100 10 1 (2024, 1, 2) 0,
          new_transaction ''VALE'' ''sell'' 100 11 1 (2024, 1, 9) 0],
       self_compensable_losses = 0, self_day_trade_compensable_losses = 0\<rparr>)) = [100]
   \<and> map mr_sales_total (ys_monthly_breakdown (calculate_taxes
      \<lparr>self_year = 2024,
       self_transactions =
         [new_transaction ''VALE'' ''buy'' 100 10 1 (2024, 1, 2) 0,
          new_transaction ''VALE'' ''sell'' 100 11 1 (2024, 1, 9) 0],
       self_compensable_losses = 0, self_day_trade_compensable_losses = 0\<rparr>)) = [1100]
   \<and> ys_tax_owed (calculate_taxes
      \<lparr>self_year = 2024,
       self_transactions =
         [new_transaction ''VALE'' ''buy'' 100 10 1 (2024, 1, 2) 0,
          new_transaction ''VALE'' ''sell'' 100 11 1 (2024, 1, 9) 0],
       self_compensable_losses = 0, self_day_trade_compensable_losses = 0\<rparr>)
     = 15 / 100 * 100 - 5 / 100000 * 1100"
  by code_simp

text \<open>
  Claim C3 says that the day-trade loss balance passed in from prior periods offsets the
  day-trade gains of the month. \<^verbatim>\<open>calculate_month_taxes\<close> overwrites its parameter
  \<^verbatim>\<open>day_trade_losses\<close> with zero before reading it, so the result does not depend on the
  balance passed in. The code at a month with one day trade gaining R\$500 and an incoming
  balance of R\$1,000: the gain stays 500, nothing is recorded as used, and the balance
  handed on is 0, not 500.
\<close>

theorem day_trade_carryforward_discarded:
  "calculate_month_taxes txs hs m c d = calculate_month_taxes txs hs m c 0
   \<and> mr_day_trade_gains (fst (calculate_month_taxes
        [new_transaction ''VALE'' ''buy'' 100 10 5 (2024, 1, 9) 0,
         new_transaction ''VALE'' ''sell'' 100 11 5 (2024, 1, 9) 0] (\<lambda>tk. []) (2024, 1) 0 1000)) = 500
   \<and> mr_day_trade_losses_used (fst (calculate_month_taxes
        [new_transaction ''VALE'' ''buy'' 100 10 5 (2024, 1, 9) 0,
         new_transaction ''VALE'' ''sell'' 100 11 5 (2024, 1, 9) 0] (\<lambda>tk. []) (2024, 1) 0 1000)) = 0
   \<and> mr_remaining_day_trade_losses (fst (calculate_month_taxes
        [new_transaction ''VALE'' ''buy'' 100 10 5 (2024, 1, 9) 0,
         new_transaction ''VALE'' ''sell'' 100 11 5 (2024, 1, 9) 0] (\<lambda>tk. []) (2024, 1) 0 1000)) = 0"
proof -
  have "calculate_month_taxes txs hs m c d = calculate_month_taxes txs hs m c 0"
    by (simp add: calculate_month_taxes_def month_start_def)
  moreover have "mr_day_trade_gains (fst (calculate_month_taxes
        [new_transaction ''VALE'' ''buy'' 100 10 5 (2024, 1, 9) 0,
         new_transaction ''VALE'' ''sell'' 100 11 5 (2024, 1, 9) 0] (\<lambda>tk. []) (2024, 1) 0 1000)) = 500"
    by code_simp
  moreover have "mr_day_trade_losses_used (fst (calculate_month_taxes
        [new_transaction ''VALE'' ''buy'' 100 10 5 (2024, 1, 9) 0,
         new_transaction ''VALE'' ''sell'' 100 11 5 (2024, 1, 9) 0] (\<lambda>tk. []) (2024, 1) 0 1000)) = 0"
    by code_simp
  moreover have "mr_remaining_day_trade_losses (fst (calculate_month_taxes
        [new_transaction ''VALE'' ''buy'' 100 10 5 (2024, 1, 9) 0,
         new_transaction ''VALE'' ''sell'' 100 11 5 (2024, 1, 9) 0] (\<lambda>tk. []) (2024, 1) 0 1000)) = 0"
    by code_simp
  ultimately show ?thesis by blast
qed

text \<open>
  Claim C4 says that the unmatched remainder of a partially matched buy enters the
  inventory and that of a partially matched sell goes on to FIFO. \<^verbatim>\<open>process_day_trades\<close>
  flags both transactions of a pair as day trades whatever is left of them, and
  \<^verbatim>\<open>calculate_month_taxes\<close> skips every flagged transaction. The code at a day with a buy of
  100 and a sell of 60: the 40 shares left of the buy are in the object, and no lot is
  added. At a day with a buy of 60 and a sell of 100 and an older lot of 100 shares: the
  40 shares left of the sell are matched against nothing, the lot keeps its 100 shares
  and the month has no gain and no loss.
\<close>

theorem day_trade_remainder_dropped:
  "map quantity (fst (process_day_trades
      [new_transaction ''VALE'' ''buy'' 100 10 5 (2024, 1, 9) 0,
       new_transaction ''VALE'' ''sell'' 60 11 5 (2024, 1, 9) 0])) = [40, 0]
   \<and> map is_day_trade (fst (process_day_trades
      [new_transaction ''VALE'' ''buy'' 100 10 5 (2024, 1, 9) 0,
       new_transaction ''VALE'' ''sell'' 60 11 5 (2024, 1, 9) 0])) = [True, True]
   \<and> holdings (process_day
      [new_transaction ''VALE'' ''buy'' 100 10 5 (2024, 1, 9) 0,
       new_transaction ''VALE'' ''sell'' 60 11 5 (2024, 1, 9) 0]
      (month_start (\<lambda>tk. []) 0 0)) ''VALE'' = []
   \<and> map quantity (fst (process_day_trades
      [new_transaction ''VALE'' ''buy'' 60 10 5 (2024, 1, 9) 0,
       new_transaction ''VALE'' ''sell'' 100 11 5 (2024, 1, 9) 0])) = [0, 40]
   \<and> holdings (process_day
      [new_transaction ''VALE'' ''buy'' 60 10 5 (2024, 1, 9) 0,
       new_transaction ''VALE'' ''sell'' 100 11 5 (2024, 1, 9) 0]
      (month_start ((\<lambda>tk. [])(''VALE'' :=
         [\<lparr>h_quantity = 100, h_price = 8, h_exchange_rate = 5, h_date = (2023, 6, 1),
           h_brokerage_fee = 0\<rparr>])) 0 0)) ''VALE''
     = [\<lparr>h_quantity = 100, h_price = 8, h_exchange_rate = 5, h_date = (2023, 6, 1),
         h_brokerage_fee = 0\<rparr>]
   \<and> month_gains (process_day
      [new_transaction ''VALE'' ''buy'' 60 10 5 (2024, 1, 9) 0,
       new_transaction ''VALE'' ''sell'' 100 11 5 (2024, 1, 9) 0]
      (month_start ((\<lambda>tk. [])(''VALE'' :=
         [\<lparr>h_quantity = 100, h_price = 8, h_exchange_rate = 5, h_date = (2023, 6, 1),
           h_brokerage_fee = 0\<rparr>])) 0 0)) = 0
   \<and> month_losses (process_day
      [new_transaction ''VALE'' ''buy'' 60 10 5 (2024, 1, 9) 0,
       new_transaction ''VALE'' ''sell'' 100 11 5 (2024, 1, 9) 0]
      (month_start ((\<lambda>tk. [])(''VALE'' :=
         [\<lparr>h_quantity = 100, h_price = 8, h_exchange_rate = 5, h_date = (2023, 6, 1),
           h_brokerage_fee = 0\<rparr>])) 0 0)) = 0"
  by code_simp

text \<open>
  Claim C5 says that every sell adds its full sale value to the month's sales volume and
  0.005% of it to the IRRF, day trade or not. The sale value is the property
  \<^verbatim>\<open>total_value_brl\<close>, computed from \<^verbatim>\<open>quantity\<close> when it is read, and it is read after
  \<^verbatim>\<open>process_day_trades\<close> has taken the matched quantity off the object. The code at a month
  with a buy of 100 and a sell of 100 at \$11 and 5 on the same day (a sale of R\$5,500): the
  sales volume and the IRRF are 0. With a buy of 60 and the same sell: the sales volume is
  that of the 40 shares left, R\$2,200.
\<close>

theorem day_trade_sale_value_lost:
  "total_value_brl (new_transaction ''VALE'' ''sell'' 100 11 5 (2024, 1, 9) 0) = 5500
   \<and> mr_sales_total (fst (calculate_month_taxes
        [new_transaction ''VALE'' ''buy'' 100 10 5 (2024, 1, 9) 0,
         new_transaction ''VALE'' ''sell'' 100 11 5 (2024, 1, 9) 0] (\<lambda>tk. []) (2024, 1) 0 0)) = 0
   \<and> mr_irrf_paid (fst (calculate_month_taxes
        [new_transaction ''VALE'' ''buy'' 100 10 5 (2024, 1, 9) 0,
         new_transaction ''VALE'' ''sell'' 100 11 5 (2024, 1, 9) 0] (\<lambda>tk. []) (2024, 1) 0 0)) = 0
   \<and> mr_sales_total (fst (calculate_month_taxes
        [new_transaction ''VALE'' ''buy'' 60 10 5 (2024, 1, 9) 0,
         new_transaction ''VALE'' ''sell'' 100 11 5 (2024, 1, 9) 0] (\<lambda>tk. []) (2024, 1) 0 0)) = 2200
   \<and> mr_irrf_paid (fst (calculate_month_taxes
        [new_transaction ''VALE'' ''buy'' 60 10 5 (2024, 1, 9) 0,
         new_transaction ''VALE'' ''sell'' 100 11 5 (2024, 1, 9) 0] (\<lambda>tk. []) (2024, 1) 0 0))
      = 5 / 100000 * 2200"
  by code_simp

subsection \<open>Groups\<close>

text \<open>
  \<open>group_by\<close> returns one group for every key that occurs, with distinct keys, and the
  group of a key is the sublist of the elements with that key.
\<close>

lemma append_to_group_keys:
  "map fst (append_to_group k x d) = (if k \<in> set (map fst d) then map fst d else map fst d @ [k])"
  by (induction d) force+

lemma append_to_group_member:
  "distinct (map fst d) \<Longrightarrow> (k', g') \<in> set (append_to_group k x d) \<Longrightarrow>
   (k' \<noteq> k \<and> (k', g') \<in> set d) \<or>
   (k' = k \<and> ((k \<notin> set (map fst d) \<and> g' = [x]) \<or> (\<exists>g. (k, g) \<in> set d \<and> g' = g @ [x])))"
proof (induction d)
  case Nil
  then show ?case by simp
next
  case (Cons p d)
  obtain kp gp where p: "p = (kp, gp)" by (cases p)
  show ?case
  proof (cases "k = kp")
    case True
    then show ?thesis using Cons.prems p by (auto simp: image_iff)
  next
    case False
    then show ?thesis using Cons p by (auto simp: image_iff)
  qed
qed

lemma group_by_snoc: "group_by key (xs @ [x]) = append_to_group (key x) x (group_by key xs)"
  by (simp add: group_by_def)

lemma group_by_invariant:
  "distinct (map fst (group_by key xs)) \<and>
   (\<forall>x \<in> set xs. key x \<in> set (map fst (group_by key xs))) \<and>
   (\<forall>(k, g) \<in> set (group_by key xs). g = filter (\<lambda>x. key x = k) xs)"
proof (induction xs rule: rev_induct)
  case Nil
  show ?case by (simp add: group_by_def)
next
  case (snoc x xs)
  let ?d = "group_by key xs"
  have d: "distinct (map fst ?d)"
    and cover: "\<forall>y \<in> set xs. key y \<in> set (map fst ?d)"
    and groups: "\<forall>(k, g) \<in> set ?d. g = filter (\<lambda>y. key y = k) xs"
    using snoc.IH by blast+
  have 1: "distinct (map fst (append_to_group (key x) x ?d))"
    using d by (simp add: append_to_group_keys)
  have 2: "\<forall>y \<in> set (xs @ [x]). key y \<in> set (map fst (append_to_group (key x) x ?d))"
    using cover by (auto simp: append_to_group_keys)
  have 3: "g' = filter (\<lambda>y. key y = k') (xs @ [x])"
    if "(k', g') \<in> set (append_to_group (key x) x ?d)" for k' g'
  proof -
    from append_to_group_member [OF d that]
    consider "k' \<noteq> key x" "(k', g') \<in> set ?d"
      | "k' = key x" "key x \<notin> set (map fst ?d)" "g' = [x]"
      | g where "k' = key x" "(key x, g) \<in> set ?d" "g' = g @ [x]"
      by blast
    then show ?thesis
    proof cases
      case 1
      then show ?thesis using groups by auto
    next
      case 2
      have "key y \<noteq> key x" if "y \<in> set xs" for y
        using cover that 2(2) by metis
      then have "filter (\<lambda>y. key y = key x) xs = []"
        by (simp add: filter_empty_conv)
      then show ?thesis using 2 by simp
    next
      case 3
      then show ?thesis using groups by auto
    qed
  qed
  show ?case
    unfolding group_by_snoc using 1 2 3 by blast
qed

lemma group_by_groups:
  "(k, g) \<in> set (group_by key xs) \<Longrightarrow> g = filter (\<lambda>x. key x = k) xs"
  using group_by_invariant [of key xs] by blast

lemma group_by_cover:
  "x \<in> set xs \<Longrightarrow> \<exists>g. (key x, g) \<in> set (group_by key xs)"
  using group_by_invariant [of key xs] by force


subsection \<open>Brokerage fees\<close>


lemma match_pair_length: "length (fst (match_pair b s st)) = length (fst st)"
  by (simp add: match_pair_def Let_def)





lemma inner_fold_length:
  "length (fst (foldl (\<lambda>st2 s. match_pair b s st2) st sells)) = length (fst st)"
  by (induction sells arbitrary: st) (simp_all add: match_pair_length)

lemma match_ticker_length: "length (fst (match_ticker buys sells st)) = length (fst st)"
  unfolding match_ticker_def
  by (induction buys arbitrary: st) (simp_all add: inner_fold_length)


lemma match_group_length: "length (fst (match_group txs0 st item)) = length (fst st)"
  by (simp add: match_group_def Let_def match_ticker_length)







subsection \<open>A buy and a sell of the same quantity on one day\<close>

lemma filter_upt_none: "(\<And>k. k < n \<Longrightarrow> \<not> P k) \<Longrightarrow> filter P [0..<n] = []"
  by (simp add: filter_empty_conv)

lemma filter_upt_single:
  "i < n \<Longrightarrow> (\<And>k. k < n \<Longrightarrow> P k = (k = i)) \<Longrightarrow> filter P [0..<n] = [i]"
proof (induction n)
  case 0
  then show ?case by simp
next
  case (Suc n)
  show ?case
  proof (cases "i = n")
    case True
    have "filter P [0..<n] = []"
      using Suc.prems(2) True by (intro filter_upt_none) simp
    moreover have "P n" using Suc.prems(2) [of n] True by simp
    ultimately show ?thesis using True by simp
  next
    case False
    then have "i < n" using Suc.prems(1) by simp
    moreover have "\<And>k. k < n \<Longrightarrow> P k = (k = i)" using Suc.prems(2) by simp
    ultimately have "filter P [0..<n] = [i]" by (rule Suc.IH)
    moreover have "\<not> P n" using Suc.prems(2) [of n] False by simp
    ultimately show ?thesis by simp
  qed
qed

lemma match_pair_frame:
  "k \<noteq> b \<Longrightarrow> k \<noteq> s \<Longrightarrow> fst (match_pair b s st) ! k = fst st ! k"
  by (simp add: match_pair_def Let_def)

lemma inner_fold_frame:
  "k \<noteq> b \<Longrightarrow> k \<notin> set sells \<Longrightarrow>
   fst (foldl (\<lambda>st2 s. match_pair b s st2) st sells) ! k = fst st ! k"
  by (induction sells arbitrary: st) (auto simp: match_pair_frame)

lemma match_ticker_frame:
  "k \<notin> set buys \<Longrightarrow> k \<notin> set sells \<Longrightarrow> fst (match_ticker buys sells st) ! k = fst st ! k"
  unfolding match_ticker_def
  by (induction buys arbitrary: st) (auto simp: inner_fold_frame)

lemma match_group_frame:
  "k \<notin> set (snd item) \<Longrightarrow> fst (match_group txs0 st item) ! k = fst st ! k"
  by (simp add: match_group_def Let_def match_ticker_frame)

lemma match_pair_tickers:
  "map ticker (fst (match_pair b s st)) = map ticker (fst st)"
proof -
  have upd: "map ticker (xs[n := (xs ! n)\<lparr>quantity := q, is_day_trade := True\<rparr>]) = map ticker xs"
    for xs :: "transaction list" and n q
    by (cases "n < length xs") (simp_all add: map_update list_update_same_conv list_update_beyond)
  show ?thesis
    by (simp add: match_pair_def Let_def upd)
qed

lemma inner_fold_tickers:
  "map ticker (fst (foldl (\<lambda>st2 s. match_pair b s st2) st sells)) = map ticker (fst st)"
  by (induction sells arbitrary: st) (simp_all add: match_pair_tickers)

lemma match_ticker_tickers:
  "map ticker (fst (match_ticker buys sells st)) = map ticker (fst st)"
  unfolding match_ticker_def
  by (induction buys arbitrary: st) (simp_all add: inner_fold_tickers)

lemma match_group_tickers:
  "map ticker (fst (match_group txs0 st item)) = map ticker (fst st)"
  by (simp add: match_group_def Let_def match_ticker_tickers)

lemma groups_fold_tickers:
  "map ticker (fst (foldl (match_group txs0) st groups)) = map ticker (fst st)"
  by (induction groups arbitrary: st) (simp_all add: match_group_tickers)

lemma process_day_trades_tickers:
  "map ticker (fst (process_day_trades txs)) = map ticker txs"
  by (simp add: process_day_trades_def Let_def groups_fold_tickers)

lemma match_pair_whole:
  assumes "i \<noteq> j" "i < length txs" "j < length txs"
    and "quantity (txs ! i) = q" "quantity (txs ! j) = q" "0 < q"
  shows "fst (match_pair i j (txs, res)) ! i = (txs ! i)\<lparr>quantity := 0, is_day_trade := True\<rparr>"
    and "fst (match_pair i j (txs, res)) ! j = (txs ! j)\<lparr>quantity := 0, is_day_trade := True\<rparr>"
  using assms by (simp_all add: match_pair_def Let_def)

lemma match_pair_done:
  "quantity (fst st ! i) = 0 \<Longrightarrow> match_pair i j st = st"
  by (simp add: match_pair_def Let_def)

lemma process_transaction_flagged:
  assumes "is_day_trade t"
  shows "month_gains (process_transaction t s) = month_gains s"
    and "month_losses (process_transaction t s) = month_losses s"
    and "holdings (process_transaction t s) = holdings s"
    and "compensable_losses (process_transaction t s) = compensable_losses s"
    and "transaction_type t = ''buy'' \<Longrightarrow> process_transaction t s = s"
  using assms by (simp_all add: process_transaction_def Let_def)

lemma process_transaction_other_ticker:
  "ticker t \<noteq> tk \<Longrightarrow> holdings (process_transaction t s) tk = holdings s tk"
  by (simp add: process_transaction_def Let_def)

lemma day_loop_holdings:
  "\<forall>t \<in> set txs. ticker t \<noteq> tk \<or> is_day_trade t \<Longrightarrow>
   holdings (foldl (\<lambda>s t. process_transaction t s) s txs) tk = holdings s tk"
proof (induction txs arbitrary: s)
  case Nil
  show ?case by simp
next
  case (Cons t txs)
  have "holdings (process_transaction t s) tk = holdings s tk"
    using Cons.prems process_transaction_other_ticker [of t tk s] process_transaction_flagged(3) [of t s]
    by auto
  then show ?case using Cons by simp
qed

text \<open>
  A day on which the ticker \<open>tk\<close> has one buy, at position \<open>i\<close>, and one sell, at
  position \<open>j\<close>, of the same quantity.
\<close>

lemma own_group_is_the_pair:
  assumes i: "i < length day" and j: "j < length day"
    and ti: "transaction_type (day ! i) = ''buy''" and tj: "transaction_type (day ! j) = ''sell''"
    and ki: "ticker (day ! i) = tk" and kj: "ticker (day ! j) = tk"
    and only: "\<forall>k < length day. ticker (day ! k) = tk \<longrightarrow> k = i \<or> k = j"
  shows "match_group day st (tk, filter (\<lambda>x. ticker (day ! x) = tk) [0..<length day]) = match_pair i j st"
proof -
  have buys: "filter (\<lambda>x. ticker (day ! x) = tk \<and> transaction_type (day ! x) = ''buy'') [0..<length day] = [i]"
  proof (rule filter_upt_single [OF i])
    fix k assume "k < length day"
    then show "(ticker (day ! k) = tk \<and> transaction_type (day ! k) = ''buy'') = (k = i)"
      using only ti tj ki by auto
  qed
  have sells: "filter (\<lambda>x. ticker (day ! x) = tk \<and> transaction_type (day ! x) = ''sell'') [0..<length day] = [j]"
  proof (rule filter_upt_single [OF j])
    fix k assume "k < length day"
    then show "(ticker (day ! k) = tk \<and> transaction_type (day ! k) = ''sell'') = (k = j)"
      using only ti tj kj by auto
  qed
  show ?thesis
    by (simp add: match_group_def Let_def buys sells match_ticker_def)
qed


lemma other_group_frame:
  assumes "snd item = filter (\<lambda>x. ticker (day ! x) = fst item) [0..<length day]"
    and "fst item \<noteq> tk" and "ticker (day ! k) = tk"
  shows "fst (match_group day st item) ! k = fst st ! k"
proof -
  have "k \<notin> set (snd item)" using assms by auto
  then show ?thesis by (rule match_group_frame)
qed

lemma matched_pair_stays:
  assumes i: "i < length day" and j: "j < length day"
    and ti: "transaction_type (day ! i) = ''buy''" and tj: "transaction_type (day ! j) = ''sell''"
    and ki: "ticker (day ! i) = tk" and kj: "ticker (day ! j) = tk"
    and only: "\<forall>k < length day. ticker (day ! k) = tk \<longrightarrow> k = i \<or> k = j"
    and groups: "\<forall>item \<in> set groups. snd item = filter (\<lambda>x. ticker (day ! x) = fst item) [0..<length day]"
    and zero: "quantity (fst st ! i) = 0"
  shows "fst (foldl (match_group day) st groups) ! i = fst st ! i
       \<and> fst (foldl (match_group day) st groups) ! j = fst st ! j"
  using groups zero
proof (induction groups arbitrary: st)
  case Nil
  show ?case by simp
next
  case (Cons item groups)
  have conf: "snd item = filter (\<lambda>x. ticker (day ! x) = fst item) [0..<length day]"
    using Cons.prems(1) by simp
  have step: "fst (match_group day st item) ! i = fst st ! i
            \<and> fst (match_group day st item) ! j = fst st ! j"
  proof (cases "fst item = tk")
    case True
    then have "item = (tk, filter (\<lambda>x. ticker (day ! x) = tk) [0..<length day])"
      using conf by (cases item) simp
    then have "match_group day st item = match_pair i j st"
      using own_group_is_the_pair [OF i j ti tj ki kj only] by simp
    then show ?thesis using match_pair_done [OF Cons.prems(2)] by simp
  next
    case False
    then show ?thesis
      using other_group_frame [OF conf False ki] other_group_frame [OF conf False kj] by simp
  qed
  have rest: "\<forall>item \<in> set groups. snd item = filter (\<lambda>x. ticker (day ! x) = fst item) [0..<length day]"
    using Cons.prems(1) by simp
  have "quantity (fst (match_group day st item) ! i) = 0"
    using step Cons.prems(2) by simp
  from Cons.IH [OF rest this] step show ?case by simp
qed

lemma pair_gets_matched:
  assumes i: "i < length day" and j: "j < length day"
    and ti: "transaction_type (day ! i) = ''buy''" and tj: "transaction_type (day ! j) = ''sell''"
    and ki: "ticker (day ! i) = tk" and kj: "ticker (day ! j) = tk"
    and qi: "quantity (day ! i) = q" and qj: "quantity (day ! j) = q" and q: "0 < q"
    and only: "\<forall>k < length day. ticker (day ! k) = tk \<longrightarrow> k = i \<or> k = j"
    and groups: "\<forall>item \<in> set groups. snd item = filter (\<lambda>x. ticker (day ! x) = fst item) [0..<length day]"
    and own: "tk \<in> fst ` set groups"
    and start: "fst st ! i = day ! i" "fst st ! j = day ! j" "length (fst st) = length day"
  shows "fst (foldl (match_group day) st groups) ! i = (day ! i)\<lparr>quantity := 0, is_day_trade := True\<rparr>
       \<and> fst (foldl (match_group day) st groups) ! j = (day ! j)\<lparr>quantity := 0, is_day_trade := True\<rparr>"
  using groups own start
proof (induction groups arbitrary: st)
  case Nil
  then show ?case by simp
next
  case (Cons item groups)
  have conf: "snd item = filter (\<lambda>x. ticker (day ! x) = fst item) [0..<length day]"
    using Cons.prems(1) by simp
  have rest: "\<forall>item \<in> set groups. snd item = filter (\<lambda>x. ticker (day ! x) = fst item) [0..<length day]"
    using Cons.prems(1) by simp
  have ij: "i \<noteq> j" using ti tj by auto
  show ?case
  proof (cases "fst item = tk")
    case True
    then have "item = (tk, filter (\<lambda>x. ticker (day ! x) = tk) [0..<length day])"
      using conf by (cases item) simp
    then have m: "match_group day st item = match_pair i j (fst st, snd st)"
      using own_group_is_the_pair [OF i j ti tj ki kj only] by simp
    have li: "i < length (fst st)" and lj: "j < length (fst st)"
      using i j Cons.prems(5) by simp_all
    have qi': "quantity (fst st ! i) = q" and qj': "quantity (fst st ! j) = q"
      using qi qj Cons.prems(3,4) by simp_all
    have after: "fst (match_group day st item) ! i = (day ! i)\<lparr>quantity := 0, is_day_trade := True\<rparr>"
                "fst (match_group day st item) ! j = (day ! j)\<lparr>quantity := 0, is_day_trade := True\<rparr>"
      using match_pair_whole [OF ij li lj qi' qj' q, of "snd st"] m Cons.prems(3,4) by simp_all
    have "quantity (fst (match_group day st item) ! i) = 0" using after(1) by simp
    from matched_pair_stays [OF i j ti tj ki kj only rest this] after
    show ?thesis by simp
  next
    case False
    have frame: "fst (match_group day st item) ! i = day ! i" "fst (match_group day st item) ! j = day ! j"
      using other_group_frame [OF conf False ki] other_group_frame [OF conf False kj] Cons.prems(3,4)
      by simp_all
    have len: "length (fst (match_group day st item)) = length day"
      using match_group_length [of day st item] Cons.prems(5) by simp
    have own': "tk \<in> fst ` set groups" using Cons.prems(2) False by auto
    from Cons.IH [OF rest own' frame len] show ?thesis by simp
  qed
qed

lemma process_day_trades_pair:
  assumes i: "i < length day" and j: "j < length day"
    and ti: "transaction_type (day ! i) = ''buy''" and tj: "transaction_type (day ! j) = ''sell''"
    and ki: "ticker (day ! i) = tk" and kj: "ticker (day ! j) = tk"
    and qi: "quantity (day ! i) = q" and qj: "quantity (day ! j) = q" and q: "0 < q"
    and only: "\<forall>k < length day. ticker (day ! k) = tk \<longrightarrow> k = i \<or> k = j"
  shows "fst (process_day_trades day) ! i = (day ! i)\<lparr>quantity := 0, is_day_trade := True\<rparr>
       \<and> fst (process_day_trades day) ! j = (day ! j)\<lparr>quantity := 0, is_day_trade := True\<rparr>"
proof -
  let ?groups = "group_by (\<lambda>x. ticker (day ! x)) [0..<length day]"
  have groups: "\<forall>item \<in> set ?groups. snd item = filter (\<lambda>x. ticker (day ! x) = fst item) [0..<length day]"
    using group_by_groups [of _ _ "\<lambda>x. ticker (day ! x)" "[0..<length day]"] by auto
  have "i \<in> set [0..<length day]" using i by simp
  from group_by_cover [OF this, of "\<lambda>x. ticker (day ! x)"] ki
  have own: "tk \<in> fst ` set ?groups" by force
  show ?thesis
    unfolding process_day_trades_def Let_def
    by (rule pair_gets_matched [OF i j ti tj ki kj qi qj q only groups own]) simp_all
qed

text \<open>
  Claim C8: on a day on which a ticker has one buy and one sell of the same quantity (100
  shares in the claim, any positive quantity here), whatever else is traded that day and
  whatever lots the ticker had before, the pair is processed entirely as a day trade.
  \<^verbatim>\<open>process_day_trades\<close> leaves both transactions with quantity 0 and the day-trade flag
  set; in the loop that follows the buy changes nothing at all, so no lot is added, and the
  sell changes neither the month's gains, nor its losses, nor any lot; and after the whole
  day the ticker's lots are what they were.
\<close>

theorem same_day_pair_is_day_trade:
  assumes i: "i < length day" and j: "j < length day"
    and ti: "transaction_type (day ! i) = ''buy''" and tj: "transaction_type (day ! j) = ''sell''"
    and ki: "ticker (day ! i) = tk" and kj: "ticker (day ! j) = tk"
    and qi: "quantity (day ! i) = q" and qj: "quantity (day ! j) = q" and q: "0 < q"
    and only: "\<forall>k < length day. ticker (day ! k) = tk \<longrightarrow> k = i \<or> k = j"
  shows "holdings (process_day day st) tk = holdings st tk
       \<and> quantity (fst (process_day_trades day) ! i) = 0
       \<and> is_day_trade (fst (process_day_trades day) ! i)
       \<and> quantity (fst (process_day_trades day) ! j) = 0
       \<and> is_day_trade (fst (process_day_trades day) ! j)
       \<and> process_transaction (fst (process_day_trades day) ! i) s = s
       \<and> month_gains (process_transaction (fst (process_day_trades day) ! j) s) = month_gains s
       \<and> month_losses (process_transaction (fst (process_day_trades day) ! j) s) = month_losses s
       \<and> holdings (process_transaction (fst (process_day_trades day) ! j) s) = holdings s"
proof -
  let ?day' = "fst (process_day_trades day)"
  have pair: "?day' ! i = (day ! i)\<lparr>quantity := 0, is_day_trade := True\<rparr>"
             "?day' ! j = (day ! j)\<lparr>quantity := 0, is_day_trade := True\<rparr>"
    using process_day_trades_pair [OF i j ti tj ki kj qi qj q only] by simp_all
  have flags: "is_day_trade (?day' ! i)" "is_day_trade (?day' ! j)"
    and zero: "quantity (?day' ! i) = 0" "quantity (?day' ! j) = 0"
    and buy: "transaction_type (?day' ! i) = ''buy''"
    using pair ti by simp_all
  have tickers: "map ticker ?day' = map ticker day"
    by (rule process_day_trades_tickers)
  then have len: "length ?day' = length day"
    by (rule map_eq_imp_length_eq)
  have each: "ticker t \<noteq> tk \<or> is_day_trade t" if "t \<in> set ?day'" for t
  proof -
    from that obtain k where k: "k < length ?day'" "t = ?day' ! k"
      by (auto simp: in_set_conv_nth)
    have "ticker (?day' ! k) = ticker (day ! k)"
      using tickers k(1) len by (metis nth_map)
    then show ?thesis
      using only k len flags by auto
  qed
  have "holdings (process_day day st) tk = holdings st tk"
    unfolding process_day_def Let_def
    by (subst day_loop_holdings) (use each in auto)
  then show ?thesis
    using flags zero process_transaction_flagged [OF flags(2), of s]
      process_transaction_flagged(5) [OF flags(1) buy, of s]
    by simp
qed

text \<open>
  A buy and a sell of 100 shares on the same day, with a lot of 50 shares bought the year
  before: the lot is still there, whole.
\<close>

theorem same_day_pair_is_day_trade_witness:
  "holdings (process_day
      [new_transaction ''VALE'' ''buy'' 100 10 5 (2024, 3, 9) 0,
       new_transaction ''VALE'' ''sell'' 100 11 5 (2024, 3, 9) 0]
      (month_start ((\<lambda>tk. [])(''VALE'' :=
         [\<lparr>h_quantity = 50, h_price = 8, h_exchange_rate = 4, h_date = (2023, 6, 1),
           h_brokerage_fee = 0\<rparr>])) 0 0)) ''VALE''
     = [\<lparr>h_quantity = 50, h_price = 8, h_exchange_rate = 4, h_date = (2023, 6, 1),
         h_brokerage_fee = 0\<rparr>]
   \<and> quantity (fst (process_day_trades
      [new_transaction ''VALE'' ''buy'' 100 10 5 (2024, 3, 9) 0,
       new_transaction ''VALE'' ''sell'' 100 11 5 (2024, 3, 9) 0]) ! 0) = 0
   \<and> is_day_trade (fst (process_day_trades
      [new_transaction ''VALE'' ''buy'' 100 10 5 (2024, 3, 9) 0,
       new_transaction ''VALE'' ''sell'' 100 11 5 (2024, 3, 9) 0]) ! 1)"
proof -
  let ?day = "[new_transaction ''VALE'' ''buy'' 100 10 5 (2024, 3, 9) 0,
               new_transaction ''VALE'' ''sell'' 100 11 5 (2024, 3, 9) 0]"
  have only: "\<forall>k < length ?day. ticker (?day ! k) = ''VALE'' \<longrightarrow> k = 0 \<or> k = 1"
    by (auto simp: less_Suc_eq)
  show ?thesis
    using same_day_pair_is_day_trade
      [of 0 ?day 1 "''VALE''" 100
          "month_start ((\<lambda>tk. [])(''VALE'' :=
             [\<lparr>h_quantity = 50, h_price = 8, h_exchange_rate = 4, h_date = (2023, 6, 1),
               h_brokerage_fee = 0\<rparr>])) 0 0", OF _ _ _ _ _ _ _ _ _ only]
    by (simp add: new_transaction_def month_start_def)
qed

end
